theory Spec2Isabelle
  imports Complex_Main
begin

section \<open>The Rounded postprocessor (art/defences/postprocessor/rounded.py)\<close>

subsection \<open>Python values, errors and the object\<close>

text \<open>
  The values a caller can pass for \<open>decimals\<close>. Python does not enforce the annotation
  \<open>decimals: int\<close>, so the model keeps the builtin types apart: \<open>bool\<close> is a subclass of
  \<open>int\<close> in Python (\<open>isinstance(True, int)\<close> holds and \<open>True == 1\<close>), \<open>float\<close>, \<open>str\<close> and
  \<open>None\<close> are not. A float is kept by its exact value only; nothing below computes with it.
\<close>

datatype pyval = PyInt int | PyBool bool | PyFloat rat | PyStr string | PyNone

datatype error = ValueError | AttributeError | TypeError | OverflowError

type_synonym kwargs = "(string \<times> pyval) list"

text \<open>
  The attributes of a \<open>Rounded\<close> instance. \<open>_is_fitted\<close>, \<open>_apply_fit\<close> and \<open>_apply_predict\<close>
  are written once by \<open>__init__\<close>; \<open>decimals\<close> is absent (\<open>None\<close> here) until the first
  \<open>set_params\<close> stores it, and reading an absent attribute raises \<open>AttributeError\<close>.
\<close>

record rounded =
  attr_is_fitted :: bool
  attr_apply_fit :: bool
  attr_apply_predict :: bool
  decimals :: "pyval option"

text \<open>The class attribute \<open>params = ["decimals"]\<close>.\<close>

definition params :: "string list" where
  "params = [''decimals'']"

text \<open>
  \<open>isinstance(v, (int, np.int))\<close>: \<open>np.int\<close> is NumPy's alias of the builtin \<open>int\<close>, so the
  test is \<open>isinstance(v, int)\<close>, true of \<open>int\<close> and of its subclass \<open>bool\<close>.
\<close>

fun isinstance_int :: "pyval \<Rightarrow> bool" where
  "isinstance_int (PyInt n) = True"
| "isinstance_int (PyBool b) = True"
| "isinstance_int (PyFloat q) = False"
| "isinstance_int (PyStr s) = False"
| "isinstance_int PyNone = False"

text \<open>The integer an \<open>int\<close> instance stands for (\<open>operator.index\<close>); \<open>None\<close> for any other value.\<close>

fun py_index :: "pyval \<Rightarrow> int option" where
  "py_index (PyInt n) = Some n"
| "py_index (PyBool b) = Some (if b then 1 else 0)"
| "py_index (PyFloat q) = None"
| "py_index (PyStr s) = None"
| "py_index PyNone = None"

text \<open>
  Modelled from the spec: \<open>Postprocessor.set_params\<close>, the base-class method that
  \<open>Rounded.set_params\<close> calls first, is not among the source files. The spec (section 4.1)
  says that in the reference behaviour the assignment happens before the validation, and
  the call site carries the comment "Save defence-specific parameters" and reads
  \<open>self.decimals\<close> right after it: the base method stores each keyword that the class
  lists in \<open>params\<close> as an attribute of that name and ignores every other keyword.
\<close>

fun setattr_param :: "string \<Rightarrow> pyval \<Rightarrow> rounded \<Rightarrow> rounded" where
  "setattr_param key v self = (if key = ''decimals'' then self\<lparr>decimals := Some v\<rparr> else self)"

fun Postprocessor_set_params :: "kwargs \<Rightarrow> rounded \<Rightarrow> rounded" where
  "Postprocessor_set_params [] self = self"
| "Postprocessor_set_params ((key, v) # kw) self =
     Postprocessor_set_params kw (if key \<in> set params then setattr_param key v self else self)"

text \<open>
  \<open>Rounded.set_params\<close>: save through the base class, then check the stored value.
  The result pairs the object as the call leaves it (also when it raises) with the raised
  error or the returned value. In \<open>not isinstance(...) or self.decimals <= 0\<close> the comparison
  runs only on an \<open>int\<close> instance, on its integer value.
\<close>

definition set_params :: "kwargs \<Rightarrow> rounded \<Rightarrow> rounded \<times> (error + bool)" where
  "set_params kw self =
     (let self' = Postprocessor_set_params kw self in
      case decimals self' of
        None \<Rightarrow> (self', Inl AttributeError)
      | Some v \<Rightarrow>
          (if \<not> isinstance_int v then (self', Inl ValueError)
           else case py_index v of
                  None \<Rightarrow> (self', Inl ValueError)
                | Some n \<Rightarrow> if n \<le> 0 then (self', Inl ValueError) else (self', Inr True)))"

text \<open>
  \<open>Rounded.__init__\<close>: the three private attributes, then \<open>set_params(decimals=decimals)\<close>.
  An exception leaves the caller without an object.
\<close>

definition init :: "pyval \<Rightarrow> bool \<Rightarrow> bool \<Rightarrow> error + rounded" where
  "init d af ap =
     (let self = \<lparr>attr_is_fitted = True, attr_apply_fit = af, attr_apply_predict = ap,
                  decimals = None\<rparr>
      in case set_params [(''decimals'', d)] self of
           (self', Inl e) \<Rightarrow> Inl e
         | (self', Inr ok) \<Rightarrow> Inr self')"

text \<open>The read-only properties \<open>apply_fit\<close> and \<open>apply_predict\<close>.\<close>

definition apply_fit :: "rounded \<Rightarrow> bool" where
  "apply_fit self = attr_apply_fit self"

definition apply_predict :: "rounded \<Rightarrow> bool" where
  "apply_predict self = attr_apply_predict self"

text \<open>
  What the documentation calls a positive integer: an \<open>int\<close> instance whose value is
  greater than 0. The invariant of a configured object is that its \<open>decimals\<close> is one.
\<close>

definition positive_integer :: "pyval \<Rightarrow> bool" where
  "positive_integer v = (case py_index v of None \<Rightarrow> False | Some n \<Rightarrow> 0 < n)"

definition decimals_valid :: "rounded \<Rightarrow> bool" where
  "decimals_valid self = (case decimals self of None \<Rightarrow> False | Some v \<Rightarrow> positive_integer v)"

subsection \<open>Arrays and the call\<close>

text \<open>
  A prediction tensor is a NumPy array of floating-point numbers: its shape, its
  floating-point format and its elements in row-major order. Arrays are Python objects
  held by reference, so the model keeps them in a store; an address is an index into it,
  and a new array gets the next free index.
\<close>

datatype dtype = Float16 | Float32 | Float64

record 'e ndarray =
  shape :: "nat list"
  dtype :: dtype
  data :: "'e list"

type_synonym addr = nat

type_synonym 'e heap = "'e ndarray list"

text \<open>NumPy takes \<open>decimals\<close> as a C \<open>int\<close> of 32 bits.\<close>

definition c_int :: "int \<Rightarrow> bool" where
  "c_int n = (- (2 ^ 31) \<le> n \<and> n < 2 ^ 31)"

text \<open>
  \<open>np.around(a, decimals=d)\<close> as the NumPy reference describes it for \<open>out=None\<close>: a new
  array of the same shape and type whose elements are those of \<open>a\<close>, each rounded to \<open>d\<close>
  decimals; \<open>a\<close> itself is only read. \<open>decimals\<close> must be an integer (\<open>TypeError\<close>
  otherwise) that fits a C \<open>int\<close> (\<open>OverflowError\<close> otherwise). The rounding of one element
  is binary floating-point arithmetic of NumPy, which is not part of this repository: it
  is the parameter \<open>rnd\<close>, given the format, the number of decimals and the element.
  The address \<open>a\<close> is that of an array in the store (\<open>a < length h\<close>), as every Python
  reference is.
\<close>

definition np_around ::
  "(dtype \<Rightarrow> int \<Rightarrow> 'e \<Rightarrow> 'e) \<Rightarrow> 'e heap \<Rightarrow> addr \<Rightarrow> pyval \<Rightarrow> 'e heap \<times> (error + addr)" where
  "np_around rnd h a d =
     (case py_index d of
        None \<Rightarrow> (h, Inl TypeError)
      | Some n \<Rightarrow>
          (if \<not> c_int n then (h, Inl OverflowError)
           else let arr = h ! a;
                    res = arr\<lparr>data := map (rnd (dtype arr) n) (data arr)\<rparr>
                in (h @ [res], Inr (length h))))"

text \<open>
  \<open>Rounded.__call__\<close>: \<open>return np.around(preds, decimals=self.decimals)\<close>. The result
  carries the object and the store as the call leaves them.
\<close>

definition call ::
  "(dtype \<Rightarrow> int \<Rightarrow> 'e \<Rightarrow> 'e) \<Rightarrow> rounded \<Rightarrow> 'e heap \<Rightarrow> addr
     \<Rightarrow> rounded \<times> 'e heap \<times> (error + addr)" where
  "call rnd self h preds =
     (case decimals self of
        None \<Rightarrow> (self, h, Inl AttributeError)
      | Some d \<Rightarrow> (case np_around rnd h preds d of (h', res) \<Rightarrow> (self, h', res)))"

text \<open>The array a call returns, read from the store the call leaves, or the error it raises.\<close>

definition call_value ::
  "(dtype \<Rightarrow> int \<Rightarrow> 'e \<Rightarrow> 'e) \<Rightarrow> rounded \<Rightarrow> 'e heap \<Rightarrow> addr \<Rightarrow> error + 'e ndarray" where
  "call_value rnd self h preds =
     (case call rnd self h preds of
        (self', h', Inl e) \<Rightarrow> Inl e
      | (self', h', Inr p) \<Rightarrow> Inr (h' ! p))"

text \<open>\<open>Rounded.fit\<close>: the body is \<open>pass\<close>; it returns \<open>None\<close>.\<close>

definition fit :: "rounded \<Rightarrow> 'e heap \<Rightarrow> addr \<Rightarrow> kwargs \<Rightarrow> rounded \<times> 'e heap" where
  "fit self h preds kw = (self, h)"

text \<open>
  Exact decimal rounding on rationals, half to even, as \<open>np.around\<close> documents it
  ("rounds to the nearest even value"): multiply by \<open>10^d\<close>, round to the nearest integer,
  divide again. It is a reference in exact arithmetic, not NumPy's computation, whose
  floating-point steps each round and can give another result. It instantiates \<open>rnd\<close>
  when the model is run on a concrete tensor.
\<close>

definition rint_exact :: "rat \<Rightarrow> int" where
  "rint_exact x =
     (let f = \<lfloor>x\<rfloor>; r = x - of_int f
      in if r < 1 / 2 then f else if 1 / 2 < r then f + 1 else if even f then f else f + 1)"

definition power_of_ten :: "int \<Rightarrow> rat" where
  "power_of_ten d = (if 0 \<le> d then 10 ^ nat d else 1 / 10 ^ nat (- d))"

definition around_exact :: "dtype \<Rightarrow> int \<Rightarrow> rat \<Rightarrow> rat" where
  "around_exact t d x = of_int (rint_exact (x * power_of_ten d)) / power_of_ten d"

section \<open>The projection loop of the Wasserstein attack\<close>

text \<open>
  Modelled from the spec: the attack module (art/attacks/evasion/wasserstein.py) is not
  among the source files; only its test is. Section 4.2 of the spec describes the
  projection as an iterative fixed-point computation that stops when the change of one
  iteration falls below a tolerance or when the iteration cap is reached, whichever comes
  first, with \<open>projected_sinkhorn_max_iter\<close> the cap of the primal and
  \<open>conjugate_sinkhorn_max_iter\<close> the cap of the conjugate variant. The numerical update
  and the convergence test are parameters; both may depend on the regularization.
\<close>

record 'r attack_config =
  regularization :: 'r
  projected_sinkhorn_max_iter :: nat
  conjugate_sinkhorn_max_iter :: nat

text \<open>
  The loop returns the number of iterations it ran together with the last iterate.
\<close>

function sinkhorn_loop ::
  "('s \<Rightarrow> 's) \<Rightarrow> ('s \<Rightarrow> 's \<Rightarrow> bool) \<Rightarrow> nat \<Rightarrow> nat \<Rightarrow> 's \<Rightarrow> nat \<times> 's" where
  "sinkhorn_loop step converged cap n s =
     (if cap \<le> n then (n, s)
      else let s' = step s
           in if converged s s' then (Suc n, s')
              else sinkhorn_loop step converged cap (Suc n) s')"
  by pat_completeness auto
termination
  by (relation "measure (\<lambda>(step, converged, cap, n, s). cap - n)") auto

text \<open>The defining equation recurses without a guard; it is unfolded one step at a time.\<close>

declare sinkhorn_loop.simps [simp del]

definition projected_sinkhorn ::
  "'r attack_config \<Rightarrow> ('r \<Rightarrow> 's \<Rightarrow> 's) \<Rightarrow> ('r \<Rightarrow> 's \<Rightarrow> 's \<Rightarrow> bool) \<Rightarrow> 's \<Rightarrow> nat \<times> 's" where
  "projected_sinkhorn cfg step converged s =
     sinkhorn_loop (step (regularization cfg)) (converged (regularization cfg))
       (projected_sinkhorn_max_iter cfg) 0 s"

definition conjugate_sinkhorn ::
  "'r attack_config \<Rightarrow> ('r \<Rightarrow> 's \<Rightarrow> 's) \<Rightarrow> ('r \<Rightarrow> 's \<Rightarrow> 's \<Rightarrow> bool) \<Rightarrow> 's \<Rightarrow> nat \<times> 's" where
  "conjugate_sinkhorn cfg step converged s =
     sinkhorn_loop (step (regularization cfg)) (converged (regularization cfg))
       (conjugate_sinkhorn_max_iter cfg) 0 s"

section \<open>Properties of set_params and the constructor\<close>

lemma Postprocessor_set_params_decimals [simp]:
  "Postprocessor_set_params [(''decimals'', d)] self = self\<lparr>decimals := Some d\<rparr>"
  by (simp add: params_def)

lemma isinstance_int_iff: "isinstance_int v \<longleftrightarrow> py_index v \<noteq> None"
  by (cases v) simp_all

lemma set_params_decimals:
  "set_params [(''decimals'', d)] self =
     (self\<lparr>decimals := Some d\<rparr>, if positive_integer d then Inr True else Inl ValueError)"
  by (cases d) (simp_all add: set_params_def positive_integer_def params_def)

lemma init_eq:
  "init d af ap =
     (if positive_integer d
      then Inr \<lparr>attr_is_fitted = True, attr_apply_fit = af, attr_apply_predict = ap,
                decimals = Some d\<rparr>
      else Inl ValueError)"
  by (simp add: init_def set_params_decimals)

lemma set_params_result:
  "snd (set_params kw self) = Inr ok \<Longrightarrow> ok \<and> decimals_valid (fst (set_params kw self))"
  by (auto simp: set_params_def Let_def decimals_valid_def positive_integer_def
      split: option.splits if_splits)

lemma setattr_param_flags:
  "attr_apply_fit (setattr_param key v self) = attr_apply_fit self"
  "attr_apply_predict (setattr_param key v self) = attr_apply_predict self"
  "attr_is_fitted (setattr_param key v self) = attr_is_fitted self"
  by simp_all

lemma Postprocessor_set_params_flags:
  "attr_apply_fit (Postprocessor_set_params kw self) = attr_apply_fit self
   \<and> attr_apply_predict (Postprocessor_set_params kw self) = attr_apply_predict self
   \<and> attr_is_fitted (Postprocessor_set_params kw self) = attr_is_fitted self"
proof (induction kw arbitrary: self)
  case Nil
  show ?case by simp
next
  case (Cons kv kw)
  obtain key v where kv: "kv = (key, v)" by (cases kv)
  show ?case
    unfolding kv Postprocessor_set_params.simps
    by (simp only: Cons.IH setattr_param_flags if_distrib [of attr_apply_fit]
          if_distrib [of attr_apply_predict] if_distrib [of attr_is_fitted] if_cancel simp_thms)
qed

lemma fst_set_params: "fst (set_params kw self) = Postprocessor_set_params kw self"
  by (simp add: set_params_def Let_def split: option.splits)

subsection \<open>The call\<close>

lemma call_returns:
  assumes "decimals self = Some d" and "py_index d = Some n" and "c_int n"
  shows "call rnd self h p =
           (self, h @ [(h ! p)\<lparr>data := map (rnd (dtype (h ! p)) n) (data (h ! p))\<rparr>],
            Inr (length h))"
  using assms by (simp add: call_def np_around_def Let_def)

lemma call_cases:
  "call rnd self h p = (self, h, Inl AttributeError) \<and> decimals self = None
   \<or> call rnd self h p = (self, h, Inl TypeError) \<and> (\<exists>d. decimals self = Some d \<and> py_index d = None)
   \<or> call rnd self h p = (self, h, Inl OverflowError)
       \<and> (\<exists>d n. decimals self = Some d \<and> py_index d = Some n \<and> \<not> c_int n)
   \<or> (\<exists>d n. decimals self = Some d \<and> py_index d = Some n \<and> c_int n \<and>
        call rnd self h p =
           (self, h @ [(h ! p)\<lparr>data := map (rnd (dtype (h ! p)) n) (data (h ! p))\<rparr>],
            Inr (length h)))"
  by (auto simp: call_def np_around_def Let_def split: option.splits)

lemma call_frame:
  assumes "call rnd self h p = (self', h', res)"
  shows "self' = self \<and> length h \<le> length h' \<and> take (length h) h' = h"
  using assms call_cases [of rnd self h p] by auto

lemma call_value_returns:
  assumes "decimals self = Some d" and "py_index d = Some n" and "c_int n"
  shows "call_value rnd self h p =
           Inr ((h ! p)\<lparr>data := map (rnd (dtype (h ! p)) n) (data (h ! p))\<rparr>)"
  using assms by (simp add: call_value_def call_returns)

lemma call_value_cases:
  "call_value rnd self h p = Inl AttributeError \<and> decimals self = None
   \<or> call_value rnd self h p = Inl TypeError \<and> (\<exists>d. decimals self = Some d \<and> py_index d = None)
   \<or> call_value rnd self h p = Inl OverflowError
       \<and> (\<exists>d n. decimals self = Some d \<and> py_index d = Some n \<and> \<not> c_int n)
   \<or> (\<exists>d n. decimals self = Some d \<and> py_index d = Some n \<and> c_int n \<and>
        call_value rnd self h p =
           Inr ((h ! p)\<lparr>data := map (rnd (dtype (h ! p)) n) (data (h ! p))\<rparr>))"
  using call_cases [of rnd self h p] by (auto simp: call_value_def)

lemma decimals_validD:
  "decimals_valid self \<Longrightarrow> \<exists>d n. decimals self = Some d \<and> py_index d = Some n \<and> 0 < n"
  by (auto simp: decimals_valid_def positive_integer_def split: option.splits)

subsection \<open>Exact decimal rounding\<close>

lemma power_of_ten_pos: "0 < power_of_ten d"
  by (simp add: power_of_ten_def)

lemma rint_exact_of_int: "rint_exact (of_int k) = k"
  by (simp add: rint_exact_def)

lemma around_exact_idempotent:
  "around_exact t d (around_exact t d x) = around_exact t d x"
proof -
  have "power_of_ten d \<noteq> 0"
    using power_of_ten_pos [of d] by simp
  then show ?thesis
    by (simp add: around_exact_def rint_exact_of_int)
qed

subsection \<open>The projection loop\<close>

lemma sinkhorn_loop_stop:
  "cap \<le> n \<Longrightarrow> sinkhorn_loop step converged cap n s = (n, s)"
  by (subst sinkhorn_loop.simps) simp

lemma sinkhorn_loop_converged:
  "n < cap \<Longrightarrow> converged s (step s) \<Longrightarrow>
     sinkhorn_loop step converged cap n s = (Suc n, step s)"
  by (subst sinkhorn_loop.simps) (simp add: Let_def)

lemma sinkhorn_loop_next:
  "n < cap \<Longrightarrow> \<not> converged s (step s) \<Longrightarrow>
     sinkhorn_loop step converged cap n s = sinkhorn_loop step converged cap (Suc n) (step s)"
  by (subst sinkhorn_loop.simps) (simp add: Let_def)

lemma sinkhorn_loop_count:
  "n \<le> cap \<Longrightarrow>
     n \<le> fst (sinkhorn_loop step converged cap n s)
     \<and> fst (sinkhorn_loop step converged cap n s) \<le> cap"
proof (induction step converged cap n s rule: sinkhorn_loop.induct)
  case (1 step converged cap n s)
  show ?case
  proof (cases "cap \<le> n")
    case True
    with "1.prems" show ?thesis by (simp add: sinkhorn_loop_stop)
  next
    case False
    note open_loop = this
    show ?thesis
    proof (cases "converged s (step s)")
      case True
      with open_loop show ?thesis by (simp add: sinkhorn_loop_converged)
    next
      case False
      from open_loop have "Suc n \<le> cap" by simp
      with "1.IH" [OF open_loop refl False] open_loop False
      show ?thesis by (simp add: sinkhorn_loop_next)
    qed
  qed
qed

lemma sinkhorn_loop_iterate:
  "snd (sinkhorn_loop step converged cap n s) =
     (step ^^ (fst (sinkhorn_loop step converged cap n s) - n)) s"
proof (induction step converged cap n s rule: sinkhorn_loop.induct)
  case (1 step converged cap n s)
  show ?case
  proof (cases "cap \<le> n")
    case True
    then show ?thesis by (simp add: sinkhorn_loop_stop)
  next
    case False
    note open_loop = this
    show ?thesis
    proof (cases "converged s (step s)")
      case True
      with open_loop show ?thesis by (simp add: sinkhorn_loop_converged)
    next
      case False
      let ?k = "fst (sinkhorn_loop step converged cap (Suc n) (step s))"
      have unfold: "sinkhorn_loop step converged cap n s =
                      sinkhorn_loop step converged cap (Suc n) (step s)"
        using open_loop False by (intro sinkhorn_loop_next) simp_all
      have "Suc n \<le> ?k"
        using sinkhorn_loop_count [of "Suc n" cap step converged "step s"] open_loop by simp
      then have count: "?k - n = Suc (?k - Suc n)"
        by simp
      have "snd (sinkhorn_loop step converged cap (Suc n) (step s)) =
              (step ^^ (?k - Suc n)) (step s)"
        by (rule "1.IH" [OF open_loop refl False])
      also have "\<dots> = (step ^^ Suc (?k - Suc n)) s"
        by (simp only: funpow_Suc_right o_apply)
      also have "\<dots> = (step ^^ (?k - n)) s"
        by (simp only: count)
      finally show ?thesis
        by (simp only: unfold)
    qed
  qed
qed

section \<open>The claims\<close>

text \<open>
  C1 (the code departs from it). The claim: a \<open>set_params\<close> whose validation fails leaves
  the previously stored \<open>decimals\<close> unchanged. The docstring of \<open>set_params\<close> promises the
  same ("apply checks before saving them as attributes"), but the method saves first and
  checks afterwards: on an object built with \<open>decimals=3\<close>, \<open>set_params(decimals=0)\<close> raises
  \<open>ValueError\<close> and leaves \<open>decimals\<close> at 0.
\<close>

theorem C1_failed_set_params_overwrites_decimals:
  "init (PyInt 3) False True =
     Inr \<lparr>attr_is_fitted = True, attr_apply_fit = False, attr_apply_predict = True,
          decimals = Some (PyInt 3)\<rparr>
   \<and> set_params [(''decimals'', PyInt 0)]
        \<lparr>attr_is_fitted = True, attr_apply_fit = False, attr_apply_predict = True,
         decimals = Some (PyInt 3)\<rparr>
     = (\<lparr>attr_is_fitted = True, attr_apply_fit = False, attr_apply_predict = True,
          decimals = Some (PyInt 0)\<rparr>, Inl ValueError)"
  by (simp add: init_def set_params_def params_def)

text \<open>
  C2. For every object, \<open>set_params(decimals=d)\<close> raises exactly when \<open>d\<close> is not a
  positive integer, and the error is then \<open>ValueError\<close>; \<open>decimals=0\<close> and \<open>decimals=-1\<close>
  both fail; \<open>set_params(decimals=3)\<close> returns \<open>True\<close> and stores 3, and a call
  afterwards rounds every element to 3 decimals.
\<close>

theorem C2_set_params_validation:
  assumes "preds < length h"
  shows "(snd (set_params [(''decimals'', d)] self) = Inl ValueError \<longleftrightarrow> \<not> positive_integer d)
     \<and> ((\<exists>e. snd (set_params [(''decimals'', d)] self) = Inl e) \<longleftrightarrow> \<not> positive_integer d)
     \<and> snd (set_params [(''decimals'', PyInt 0)] self) = Inl ValueError
     \<and> snd (set_params [(''decimals'', PyInt (- 1))] self) = Inl ValueError
     \<and> set_params [(''decimals'', PyInt 3)] self = (self\<lparr>decimals := Some (PyInt 3)\<rparr>, Inr True)
     \<and> call_value rnd (fst (set_params [(''decimals'', PyInt 3)] self)) h preds
         = Inr ((h ! preds)\<lparr>data := map (rnd (dtype (h ! preds)) 3) (data (h ! preds))\<rparr>)"
proof -
  have raises: "snd (set_params [(''decimals'', d)] self) = Inl ValueError \<longleftrightarrow> \<not> positive_integer d"
    by (simp add: set_params_decimals)
  have any: "(\<exists>e. snd (set_params [(''decimals'', d)] self) = Inl e) \<longleftrightarrow> \<not> positive_integer d"
    by (simp add: set_params_decimals)
  have zero: "snd (set_params [(''decimals'', PyInt 0)] self) = Inl ValueError"
    by (simp add: set_params_decimals positive_integer_def)
  have minus: "snd (set_params [(''decimals'', PyInt (- 1))] self) = Inl ValueError"
    by (simp add: set_params_decimals positive_integer_def)
  have three: "set_params [(''decimals'', PyInt 3)] self = (self\<lparr>decimals := Some (PyInt 3)\<rparr>, Inr True)"
    by (simp add: set_params_decimals positive_integer_def)
  have seen: "call_value rnd (fst (set_params [(''decimals'', PyInt 3)] self)) h preds
         = Inr ((h ! preds)\<lparr>data := map (rnd (dtype (h ! preds)) 3) (data (h ! preds))\<rparr>)"
    unfolding three fst_conv
    by (rule call_value_returns [where d = "PyInt 3"]) (simp_all add: c_int_def)
  from raises any zero minus three seen show ?thesis by (intro conjI)
qed

theorem C2_set_params_validation_witness:
  "(0::nat) < length [\<lparr>shape = [3], dtype = Float64, data = [1 / 3, 12345 / 100000, 5 / 2 :: rat]\<rparr>]
   \<and> snd (set_params [(''decimals'', PyFloat (5 / 2))]
        \<lparr>attr_is_fitted = True, attr_apply_fit = False, attr_apply_predict = True,
         decimals = Some (PyInt 5)\<rparr>) = Inl ValueError
   \<and> call_value around_exact
        (fst (set_params [(''decimals'', PyInt 3)]
           \<lparr>attr_is_fitted = True, attr_apply_fit = False, attr_apply_predict = True,
            decimals = Some (PyInt 5)\<rparr>))
        [\<lparr>shape = [3], dtype = Float64, data = [1 / 3, 12345 / 100000, 5 / 2]\<rparr>] 0
      = Inr \<lparr>shape = [3], dtype = Float64, data = [333 / 1000, 123 / 1000, 5 / 2]\<rparr>"
proof -
  let ?r5 = "\<lparr>attr_is_fitted = True, attr_apply_fit = False, attr_apply_predict = True,
              decimals = Some (PyInt 5)\<rparr>"
  let ?arr = "\<lparr>shape = [3], dtype = Float64, data = [1 / 3, 12345 / 100000, 5 / 2 :: rat]\<rparr>"
  have live: "(0::nat) < length [?arr]"
    by simp
  have bad: "\<not> positive_integer (PyFloat (5 / 2))"
    by (simp add: positive_integer_def)
  have rounded: "(?arr :: rat ndarray)\<lparr>data := map (around_exact (dtype ?arr) 3) (data ?arr)\<rparr>
                   = \<lparr>shape = [3], dtype = Float64, data = [333 / 1000, 123 / 1000, 5 / 2]\<rparr>"
    by code_simp
  note claim = C2_set_params_validation [OF live, of "PyFloat (5 / 2)" ?r5 around_exact]
  from claim bad have "snd (set_params [(''decimals'', PyFloat (5 / 2))] ?r5) = Inl ValueError"
    by blast
  moreover have "call_value around_exact (fst (set_params [(''decimals'', PyInt 3)] ?r5)) [?arr] 0
          = Inr \<lparr>shape = [3], dtype = Float64, data = [333 / 1000, 123 / 1000, 5 / 2]\<rparr>"
  proof -
    have "call_value around_exact (fst (set_params [(''decimals'', PyInt 3)] ?r5)) [?arr] 0
            = Inr (([?arr] ! 0)\<lparr>data := map (around_exact (dtype ([?arr] ! 0)) 3)
                                        (data ([?arr] ! 0))\<rparr>)"
      using claim by (elim conjE)
    then have "call_value around_exact (fst (set_params [(''decimals'', PyInt 3)] ?r5)) [?arr] 0
            = Inr (?arr\<lparr>data := map (around_exact (dtype ?arr) 3) (data ?arr)\<rparr>)"
      by (simp only: nth_Cons_0)
    with rounded show ?thesis
      by (simp only:)
  qed
  ultimately show ?thesis
    using live by (intro conjI)
qed

text \<open>
  C3. Constructing the object with a \<open>decimals\<close> that is not a positive integer fails with
  \<open>ValueError\<close>, with a positive integer it succeeds, and every object that the
  constructor returns or that a \<open>set_params\<close> call returning normally leaves behind has a
  positive integer as \<open>decimals\<close>.
\<close>

theorem C3_constructor_and_update_invariant:
  "(\<not> positive_integer d \<longrightarrow> init d af ap = Inl ValueError)
   \<and> (positive_integer d \<longrightarrow> (\<exists>self. init d af ap = Inr self))
   \<and> (\<forall>self. init d af ap = Inr self \<longrightarrow> decimals_valid self)
   \<and> (\<forall>ok. snd (set_params kw self0) = Inr ok \<longrightarrow> decimals_valid (fst (set_params kw self0)))"
proof (intro conjI allI impI)
  assume "\<not> positive_integer d"
  then show "init d af ap = Inl ValueError" by (simp add: init_eq)
next
  assume "positive_integer d"
  then show "\<exists>self. init d af ap = Inr self" by (simp add: init_eq)
next
  fix self assume "init d af ap = Inr self"
  then show "decimals_valid self"
    by (auto simp: init_eq decimals_valid_def split: if_splits)
next
  fix ok assume "snd (set_params kw self0) = Inr ok"
  then show "decimals_valid (fst (set_params kw self0))"
    using set_params_result by blast
qed

theorem C3_constructor_and_update_invariant_witness:
  "init (PyInt 0) False True = Inl ValueError
   \<and> init (PyStr ''3'') False True = Inl ValueError
   \<and> init (PyInt 3) False True =
       Inr \<lparr>attr_is_fitted = True, attr_apply_fit = False, attr_apply_predict = True,
            decimals = Some (PyInt 3)\<rparr>
   \<and> decimals_valid \<lparr>attr_is_fitted = True, attr_apply_fit = False, attr_apply_predict = True,
            decimals = Some (PyInt 3)\<rparr>
   \<and> snd (set_params [(''decimals'', PyInt 7)]
        \<lparr>attr_is_fitted = True, attr_apply_fit = False, attr_apply_predict = True,
         decimals = Some (PyInt 3)\<rparr>) = Inr True
   \<and> decimals_valid (fst (set_params [(''decimals'', PyInt 7)]
        \<lparr>attr_is_fitted = True, attr_apply_fit = False, attr_apply_predict = True,
         decimals = Some (PyInt 3)\<rparr>))"
proof -
  let ?r3 = "\<lparr>attr_is_fitted = True, attr_apply_fit = False, attr_apply_predict = True,
              decimals = Some (PyInt 3)\<rparr>"
  have built: "init (PyInt 3) False True = Inr ?r3"
    by (simp add: init_def set_params_def params_def)
  have updated: "snd (set_params [(''decimals'', PyInt 7)] ?r3) = Inr True"
    by (simp add: set_params_def params_def)
  have bad0: "\<not> positive_integer (PyInt 0)" and bad1: "\<not> positive_integer (PyStr ''3'')"
    and good: "positive_integer (PyInt 3)"
    by (simp_all add: positive_integer_def)
  note at_0 = C3_constructor_and_update_invariant [of "PyInt 0" False True "[]" ?r3]
  note at_str = C3_constructor_and_update_invariant [of "PyStr ''3''" False True "[]" ?r3]
  note at_3 = C3_constructor_and_update_invariant
                [of "PyInt 3" False True "[(''decimals'', PyInt 7)]" ?r3]
  from at_0 bad0 have "init (PyInt 0) False True = Inl ValueError"
    by blast
  moreover from at_str bad1 have "init (PyStr ''3'') False True = Inl ValueError"
    by blast
  moreover note built
  moreover from at_3 built have "decimals_valid ?r3"
    by blast
  moreover note updated
  moreover from at_3 updated
  have "decimals_valid (fst (set_params [(''decimals'', PyInt 7)] ?r3))"
    by blast
  ultimately show ?thesis
    by (intro conjI)
qed

text \<open>
  C5. The array a call returns has the shape and the floating-point format of the array
  it was given, and as many elements. The call returns an array exactly when the stored
  \<open>decimals\<close> is an integer that NumPy accepts.
\<close>

theorem C5_call_preserves_shape_and_dtype:
  assumes "preds < length h"
  shows "((\<exists>out. call_value rnd self h preds = Inr out) \<longleftrightarrow>
            (\<exists>d n. decimals self = Some d \<and> py_index d = Some n \<and> c_int n))
     \<and> (\<forall>out. call_value rnd self h preds = Inr out \<longrightarrow>
            shape out = shape (h ! preds) \<and> dtype out = dtype (h ! preds)
            \<and> length (data out) = length (data (h ! preds)))"
proof (rule conjI)
  show "(\<exists>out. call_value rnd self h preds = Inr out) \<longleftrightarrow>
          (\<exists>d n. decimals self = Some d \<and> py_index d = Some n \<and> c_int n)"
  proof
    assume "\<exists>out. call_value rnd self h preds = Inr out"
    with call_value_cases [of rnd self h preds]
    show "\<exists>d n. decimals self = Some d \<and> py_index d = Some n \<and> c_int n"
      by auto
  next
    assume "\<exists>d n. decimals self = Some d \<and> py_index d = Some n \<and> c_int n"
    then obtain d n where "decimals self = Some d" and "py_index d = Some n" and "c_int n"
      by blast
    then show "\<exists>out. call_value rnd self h preds = Inr out"
      by (simp add: call_value_returns)
  qed
next
  show "\<forall>out. call_value rnd self h preds = Inr out \<longrightarrow>
            shape out = shape (h ! preds) \<and> dtype out = dtype (h ! preds)
            \<and> length (data out) = length (data (h ! preds))"
  proof (rule allI, rule impI)
    fix out
    assume "call_value rnd self h preds = Inr out"
    with call_value_cases [of rnd self h preds]
    obtain n where
      "out = (h ! preds)\<lparr>data := map (rnd (dtype (h ! preds)) n) (data (h ! preds))\<rparr>"
      by auto
    then show "shape out = shape (h ! preds) \<and> dtype out = dtype (h ! preds)
              \<and> length (data out) = length (data (h ! preds))"
      by simp
  qed
qed

theorem C5_call_preserves_shape_and_dtype_witness:
  "(0::nat) < length [\<lparr>shape = [2, 2], dtype = Float32,
                       data = [1 / 3, 2 / 3, 12345 / 100000, 5 / 2 :: rat]\<rparr>]
   \<and> call_value around_exact
         \<lparr>attr_is_fitted = True, attr_apply_fit = False, attr_apply_predict = True,
          decimals = Some (PyInt 3)\<rparr>
         [\<lparr>shape = [2, 2], dtype = Float32, data = [1 / 3, 2 / 3, 12345 / 100000, 5 / 2]\<rparr>] 0
       = Inr \<lparr>shape = [2, 2], dtype = Float32,
              data = [333 / 1000, 667 / 1000, 123 / 1000, 5 / 2]\<rparr>
   \<and> shape \<lparr>shape = [2, 2], dtype = Float32,
              data = [333 / 1000, 667 / 1000, 123 / 1000, 5 / 2 :: rat]\<rparr> = [2, 2]
   \<and> dtype \<lparr>shape = [2, 2], dtype = Float32,
              data = [333 / 1000, 667 / 1000, 123 / 1000, 5 / 2 :: rat]\<rparr> = Float32"
proof -
  let ?r3 = "\<lparr>attr_is_fitted = True, attr_apply_fit = False, attr_apply_predict = True,
              decimals = Some (PyInt 3)\<rparr>"
  let ?arr = "\<lparr>shape = [2, 2], dtype = Float32,
               data = [1 / 3, 2 / 3, 12345 / 100000, 5 / 2 :: rat]\<rparr>"
  let ?out = "\<lparr>shape = [2, 2], dtype = Float32,
               data = [333 / 1000, 667 / 1000, 123 / 1000, 5 / 2 :: rat]\<rparr>"
  have live: "(0::nat) < length [?arr]"
    by simp
  have returned: "call_value around_exact ?r3 [?arr] 0 = Inr ?out"
    by code_simp
  note claim = C5_call_preserves_shape_and_dtype [OF live, of around_exact ?r3]
  from claim returned
  have "shape ?out = shape ([?arr] ! 0) \<and> dtype ?out = dtype ([?arr] ! 0)"
    by blast
  then have "shape ?out = [2, 2] \<and> dtype ?out = Float32"
    by simp
  with live returned show ?thesis
    by (intro conjI) simp_all
qed




text \<open>
  C7. The projection loop is a total function, and for every update, convergence test,
  regularization and start value it runs at most \<open>projected_sinkhorn_max_iter\<close>
  iterations (\<open>conjugate_sinkhorn_max_iter\<close> for the conjugate variant); the count it
  returns is the number of updates applied to the start value.
\<close>

theorem C7_sinkhorn_terminates_within_cap:
  "fst (projected_sinkhorn cfg step converged s) \<le> projected_sinkhorn_max_iter cfg
   \<and> snd (projected_sinkhorn cfg step converged s)
       = (step (regularization cfg) ^^ fst (projected_sinkhorn cfg step converged s)) s
   \<and> fst (conjugate_sinkhorn cfg step converged s) \<le> conjugate_sinkhorn_max_iter cfg
   \<and> snd (conjugate_sinkhorn cfg step converged s)
       = (step (regularization cfg) ^^ fst (conjugate_sinkhorn cfg step converged s)) s"
proof -
  have bound: "fst (sinkhorn_loop f c cap 0 s) \<le> cap" for f c cap
    using sinkhorn_loop_count [of 0 cap f c s] by simp
  have iter: "snd (sinkhorn_loop f c cap 0 s) = (f ^^ fst (sinkhorn_loop f c cap 0 s)) s"
    for f c cap
    using sinkhorn_loop_iterate [of f c cap 0 s] by simp
  show ?thesis
    unfolding projected_sinkhorn_def conjugate_sinkhorn_def
    by (intro conjI bound iter)
qed

theorem C7_sinkhorn_terminates_within_cap_witness:
  "projected_sinkhorn
      \<lparr>regularization = 100 :: nat, projected_sinkhorn_max_iter = 5,
       conjugate_sinkhorn_max_iter = 5\<rparr>
      (\<lambda>r s. (s + r) div 2) (\<lambda>r s s'. s' = s) 1000 = (5, 128)
   \<and> fst (projected_sinkhorn
      \<lparr>regularization = 100 :: nat, projected_sinkhorn_max_iter = 5,
       conjugate_sinkhorn_max_iter = 5\<rparr>
      (\<lambda>r s. (s + r) div 2) (\<lambda>r s s'. s' = s) 1000)
      \<le> projected_sinkhorn_max_iter \<lparr>regularization = 100 :: nat, projected_sinkhorn_max_iter = 5,
       conjugate_sinkhorn_max_iter = 5\<rparr>
   \<and> conjugate_sinkhorn
      \<lparr>regularization = 100 :: nat, projected_sinkhorn_max_iter = 5,
       conjugate_sinkhorn_max_iter = 5\<rparr>
      (\<lambda>r s. (s + r) div 2) (\<lambda>r s s'. s' = s) 101 = (2, 100)
   \<and> fst (conjugate_sinkhorn
      \<lparr>regularization = 100 :: nat, projected_sinkhorn_max_iter = 5,
       conjugate_sinkhorn_max_iter = 5\<rparr>
      (\<lambda>r s. (s + r) div 2) (\<lambda>r s s'. s' = s) 101)
      \<le> conjugate_sinkhorn_max_iter \<lparr>regularization = 100 :: nat, projected_sinkhorn_max_iter = 5,
       conjugate_sinkhorn_max_iter = 5\<rparr>"
proof -
  let ?cfg = "\<lparr>regularization = 100 :: nat, projected_sinkhorn_max_iter = 5,
               conjugate_sinkhorn_max_iter = 5\<rparr>"
  let ?step = "\<lambda>(r::nat) (s::nat). (s + r) div 2"
  let ?conv = "\<lambda>(r::nat) (s::nat) s'. s' = s"
  have capped: "projected_sinkhorn ?cfg ?step ?conv 1000 = (5, 128)"
    by code_simp
  have settled: "conjugate_sinkhorn ?cfg ?step ?conv 101 = (2, 100)"
    by code_simp
  from C7_sinkhorn_terminates_within_cap [of ?cfg ?step ?conv 1000]
  have a: "fst (projected_sinkhorn ?cfg ?step ?conv 1000) \<le> projected_sinkhorn_max_iter ?cfg"
    by (elim conjE)
  from C7_sinkhorn_terminates_within_cap [of ?cfg ?step ?conv 101]
  have b: "fst (conjugate_sinkhorn ?cfg ?step ?conv 101) \<le> conjugate_sinkhorn_max_iter ?cfg"
    by (elim conjE)
  from capped a settled b show ?thesis
    by (intro conjI)
qed

text \<open>
  C8. The properties \<open>apply_fit\<close> and \<open>apply_predict\<close> of a constructed object return the
  booleans given to the constructor, and \<open>fit\<close>, a call and \<open>set_params\<close> (with any
  keywords, also when it raises) leave both as they were.
\<close>

theorem C8_flags_read_only:
  "(\<forall>self. init d af ap = Inr self \<longrightarrow> apply_fit self = af \<and> apply_predict self = ap)
   \<and> apply_fit (fst (fit self h preds kw)) = apply_fit self
   \<and> apply_predict (fst (fit self h preds kw)) = apply_predict self
   \<and> apply_fit (fst (call rnd self h preds)) = apply_fit self
   \<and> apply_predict (fst (call rnd self h preds)) = apply_predict self
   \<and> apply_fit (fst (set_params kw self)) = apply_fit self
   \<and> apply_predict (fst (set_params kw self)) = apply_predict self"
proof -
  have built: "\<forall>self. init d af ap = Inr self \<longrightarrow> apply_fit self = af \<and> apply_predict self = ap"
    by (auto simp: init_eq apply_fit_def apply_predict_def split: if_splits)
  have fitted: "fst (fit self h preds kw) = self"
    by (simp add: fit_def)
  have called: "fst (call rnd self h preds) = self"
    using call_frame [of rnd self h preds] by (cases "call rnd self h preds") simp
  have updated: "apply_fit (fst (set_params kw self)) = apply_fit self"
    "apply_predict (fst (set_params kw self)) = apply_predict self"
    by (simp_all add: fst_set_params apply_fit_def apply_predict_def Postprocessor_set_params_flags)
  from built updated show ?thesis
    unfolding fitted called by (intro conjI) simp_all
qed

theorem C8_flags_read_only_witness:
  "init (PyInt 3) True False =
     Inr \<lparr>attr_is_fitted = True, attr_apply_fit = True, attr_apply_predict = False,
          decimals = Some (PyInt 3)\<rparr>
   \<and> apply_fit \<lparr>attr_is_fitted = True, attr_apply_fit = True, attr_apply_predict = False,
                 decimals = Some (PyInt 3)\<rparr> = True
   \<and> apply_predict \<lparr>attr_is_fitted = True, attr_apply_fit = True, attr_apply_predict = False,
                     decimals = Some (PyInt 3)\<rparr> = False
   \<and> apply_fit (fst (set_params [(''apply_fit'', PyBool False), (''decimals'', PyInt 0)]
        \<lparr>attr_is_fitted = True, attr_apply_fit = True, attr_apply_predict = False,
         decimals = Some (PyInt 3)\<rparr>)) = True"
proof -
  let ?r = "\<lparr>attr_is_fitted = True, attr_apply_fit = True, attr_apply_predict = False,
             decimals = Some (PyInt 3)\<rparr>"
  have built: "init (PyInt 3) True False = Inr ?r"
    by (simp add: init_def set_params_def params_def)
  note claim = C8_flags_read_only
    [of "PyInt 3" True False ?r "[] :: rat heap" 0
        "[(''apply_fit'', PyBool False), (''decimals'', PyInt 0)]" around_exact]
  from claim built have flags: "apply_fit ?r = True \<and> apply_predict ?r = False"
    by blast
  from claim flags
  have "apply_fit (fst (set_params [(''apply_fit'', PyBool False), (''decimals'', PyInt 0)] ?r))
          = True"
    by (elim conjE) (simp only:)
  with built flags show ?thesis
    by (intro conjI) simp_all
qed

text \<open>
  C9. \<open>fit\<close> changes nothing for any input and keywords: the object and the store are
  returned as they were, so \<open>decimals\<close>, \<open>apply_fit\<close> and \<open>apply_predict\<close> are unchanged
  and a call afterwards behaves as a call before.
\<close>

theorem C9_fit_is_noop:
  "fit self h preds kw = (self, h)
   \<and> decimals (fst (fit self h preds kw)) = decimals self
   \<and> apply_fit (fst (fit self h preds kw)) = apply_fit self
   \<and> apply_predict (fst (fit self h preds kw)) = apply_predict self
   \<and> call rnd (fst (fit self h preds kw)) (snd (fit self h preds kw)) p = call rnd self h p"
  by (simp add: fit_def)

theorem C9_fit_is_noop_witness:
  "fit \<lparr>attr_is_fitted = True, attr_apply_fit = True, attr_apply_predict = False,
        decimals = Some (PyInt 3)\<rparr>
       [\<lparr>shape = [2], dtype = Float64, data = [1 / 3, 5 / 2 :: rat]\<rparr>] 0
       [(''nb_epochs'', PyInt 10)]
   = (\<lparr>attr_is_fitted = True, attr_apply_fit = True, attr_apply_predict = False,
        decimals = Some (PyInt 3)\<rparr>,
      [\<lparr>shape = [2], dtype = Float64, data = [1 / 3, 5 / 2]\<rparr>])"
  using C9_fit_is_noop
    [of "\<lparr>attr_is_fitted = True, attr_apply_fit = True, attr_apply_predict = False,
         decimals = Some (PyInt 3)\<rparr>"
        "[\<lparr>shape = [2], dtype = Float64, data = [1 / 3, 5 / 2 :: rat]\<rparr>]" 0
        "[(''nb_epochs'', PyInt 10)]" around_exact 0]
  by (elim conjE)

text \<open>
  C10. The result of a call depends only on the input array and on \<open>decimals\<close>: two
  objects with the same \<open>decimals\<close>, whatever their flags, called on equal arrays held
  in different stores, return equal arrays (or raise the same error). And \<open>set_params\<close>
  never returns \<open>False\<close>: when it does not raise, it returns \<open>True\<close>.
\<close>

theorem C10_call_deterministic:
  assumes "p1 < length h1" and "p2 < length h2"
    and "h1 ! p1 = h2 ! p2" and "decimals self1 = decimals self2"
  shows "call_value rnd self1 h1 p1 = call_value rnd self2 h2 p2
     \<and> snd (set_params kw self) \<noteq> Inr False"
proof
  show "call_value rnd self1 h1 p1 = call_value rnd self2 h2 p2"
    using assms(3,4) by (simp add: call_value_def call_def np_around_def Let_def split: option.splits)
next
  show "snd (set_params kw self) \<noteq> Inr False"
    using set_params_result [of kw self False] by blast
qed

theorem C10_call_deterministic_witness:
  "(0::nat) < length [\<lparr>shape = [2], dtype = Float64, data = [1 / 3, 5 / 2 :: rat]\<rparr>]
   \<and> (1::nat) < length [\<lparr>shape = [1], dtype = Float16, data = [7 :: rat]\<rparr>,
                        \<lparr>shape = [2], dtype = Float64, data = [1 / 3, 5 / 2]\<rparr>]
   \<and> call_value around_exact
        \<lparr>attr_is_fitted = True, attr_apply_fit = False, attr_apply_predict = True,
         decimals = Some (PyInt 3)\<rparr>
        [\<lparr>shape = [2], dtype = Float64, data = [1 / 3, 5 / 2]\<rparr>] 0
     = call_value around_exact
        \<lparr>attr_is_fitted = True, attr_apply_fit = True, attr_apply_predict = False,
         decimals = Some (PyInt 3)\<rparr>
        [\<lparr>shape = [1], dtype = Float16, data = [7]\<rparr>,
         \<lparr>shape = [2], dtype = Float64, data = [1 / 3, 5 / 2]\<rparr>] 1
   \<and> snd (set_params [(''decimals'', PyInt 4)]
        \<lparr>attr_is_fitted = True, attr_apply_fit = False, attr_apply_predict = True,
         decimals = Some (PyInt 3)\<rparr>) = Inr True"
proof -
  let ?r1 = "\<lparr>attr_is_fitted = True, attr_apply_fit = False, attr_apply_predict = True,
              decimals = Some (PyInt 3)\<rparr>"
  let ?r2 = "\<lparr>attr_is_fitted = True, attr_apply_fit = True, attr_apply_predict = False,
              decimals = Some (PyInt 3)\<rparr>"
  let ?arr = "\<lparr>shape = [2], dtype = Float64, data = [1 / 3, 5 / 2 :: rat]\<rparr>"
  let ?other = "\<lparr>shape = [1], dtype = Float16, data = [7 :: rat]\<rparr>"
  have live1: "(0::nat) < length [?arr]" and live2: "(1::nat) < length [?other, ?arr]"
    by simp_all
  have same_tensor: "[?arr] ! 0 = [?other, ?arr] ! 1"
    by simp
  have same_decimals: "decimals ?r1 = decimals ?r2"
    by simp
  have returned: "snd (set_params [(''decimals'', PyInt 4)] ?r1) = Inr True"
    by (simp add: set_params_def params_def)
  from C10_call_deterministic [OF live1 live2 same_tensor same_decimals, of around_exact]
  have "call_value around_exact ?r1 [?arr] 0 = call_value around_exact ?r2 [?other, ?arr] 1"
    by (rule conjunct1)
  with live1 live2 returned show ?thesis
    by (intro conjI)
qed

end
